theory Spec2Isabelle
  imports Complex_Main
begin

section \<open>Attack-aware banlist mitigation (detect\_and\_mitigate.py)\<close>

text \<open>
  A shallow embedding of \<^verbatim>\<open>src/detect_and_mitigate.py\<close>. Python integers are
  \<open>int\<close>, Python strings are \<open>string\<close>, a text file is the list of lines that
  iterating over it yields (each line with its terminator).

  Python floats are modelled by exact rationals, and this is where the model and the
  program can differ:
  \<^item> Python rounds each float operation. The products with 0.25 are exact for counters
    below \<open>2^53\<close>; the products with 2.5, 5.0 and 0.15 and the quotient by
    \<open>rx + 0.001\<close> are rounded, so \<open>blackhole_test\<close> and \<open>wormhole_test\<close> may
    differ from the program on counters for which a comparison is decided by the rounding.
    The concrete tables below use counters on which every product is exact.
  \<^item> Python raises OverflowError when an integer beyond the range of a float is
    converted: in \<^verbatim>\<open>statistics.median\<close> on an even number of values, in the
    \<^verbatim>\<open>.1f\<close> format of the median at line 216, and in the products of the two
    detectors. The model has no such branch: \<open>median\<close>, \<open>additional_detections\<close> and
    the detectors return a value where the program would abort before the writer.
  \<^item> The ratio of line 253 and the product of line 39 are exact for tables of fewer
    than \<open>2^53\<close> rows.

  The theorems on the assembled lists take the additional detections as given lists and
  hold for whatever the detectors return. File contents are ASCII: the whitespace of
  \<open>is_space\<close> is the ASCII part of what \<^verbatim>\<open>strip\<close> and \<^verbatim>\<open>int\<close> remove, and
  digits are the ASCII digits. Python's limit on the number of digits of an integer
  conversion is not modelled.
\<close>

subsection \<open>Data\<close>

text \<open>One row of the node table, as the dictionary \<open>main\<close> builds from a CSV row.\<close>

record node =
  node_id :: int
  txPackets :: int
  rxPackets :: int
  fwdPackets :: int
  node_type :: string

datatype py_error = ZeroDivisionError | StatisticsError

text \<open>The three output files; \<open>None\<close> when the file does not exist.\<close>

record files =
  blackhole_file :: "string list option"
  wormhole_file :: "string list option"
  banlist_file :: "string list option"

text \<open>The three lists \<open>main\<close> holds when it reaches the writer.\<close>

record banlists =
  blackhole_banlist :: "int list"
  wormhole_banlist :: "int list"
  main_banlist :: "int list"

subsection \<open>Python built-ins used by the program\<close>

text \<open>\<^verbatim>\<open>sorted(set(xs))\<close>\<close>

definition sorted_set :: "int list \<Rightarrow> int list" where
  "sorted_set xs = sort (remdups xs)"

text \<open>\<^verbatim>\<open>xs[:n]\<close>; a negative bound counts from the end.\<close>

definition slice_to :: "'a list \<Rightarrow> int \<Rightarrow> 'a list" where
  "slice_to xs n = (if 0 \<le> n then take (nat n) xs else take (length xs - nat (- n)) xs)"

text \<open>\<^verbatim>\<open>int(x)\<close> on a float: truncation towards zero.\<close>

definition int_of_float :: "rat \<Rightarrow> int" where
  "int_of_float x = (if 0 \<le> x then \<lfloor>x\<rfloor> else \<lceil>x\<rceil>)"

text \<open>
  \<^verbatim>\<open>statistics.median\<close>: sorts the data, raises on empty data, returns the middle
  element or the mean of the two middle elements. The mean is the exact rational; the
  OverflowError of the program's division on integers beyond the float range is not
  modelled.
\<close>

definition median :: "int list \<Rightarrow> py_error + rat" where
  "median xs =
     (let d = sort xs; n = length d in
      if n = 0 then Inl StatisticsError
      else if n mod 2 = 1 then Inr (of_int (d ! (n div 2)))
      else Inr ((of_int (d ! (n div 2 - 1)) + of_int (d ! (n div 2))) / 2))"

definition newline :: char where
  "newline = CHR 0x0A"

definition is_space :: "char \<Rightarrow> bool" where
  "is_space c = (let k = (of_char c :: nat) in (9 \<le> k \<and> k \<le> 13) \<or> (28 \<le> k \<and> k \<le> 32))"

definition is_digit :: "char \<Rightarrow> bool" where
  "is_digit c = (let k = (of_char c :: nat) in 48 \<le> k \<and> k \<le> 57)"

definition digit_val :: "char \<Rightarrow> nat" where
  "digit_val c = of_char c - 48"

definition digit_char :: "nat \<Rightarrow> char" where
  "digit_char d = char_of (48 + d)"

text \<open>\<^verbatim>\<open>s.strip()\<close>\<close>

definition strip :: "string \<Rightarrow> string" where
  "strip s = rev (dropWhile is_space (rev (dropWhile is_space s)))"

text \<open>The decimal digits of a natural number, most significant first.\<close>

fun digits_of :: "nat \<Rightarrow> string" where
  "digits_of n = (if n < 10 then [digit_char n] else digits_of (n div 10) @ [digit_char (n mod 10)])"

declare digits_of.simps [simp del]

text \<open>\<^verbatim>\<open>str(n)\<close>, which is what \<^verbatim>\<open>f"{node_id}"\<close> formats.\<close>

definition str_int :: "int \<Rightarrow> string" where
  "str_int n = (if n < 0 then CHR ''-'' # digits_of (nat (- n)) else digits_of (nat n))"

text \<open>
  The digits after the first one of an integer literal: digits, with single underscores
  allowed between two digits. \<open>None\<close> is Python's ValueError.
\<close>

fun digits_value :: "nat \<Rightarrow> string \<Rightarrow> nat option" where
  "digits_value acc [] = Some acc"
| "digits_value acc (c # cs) =
     (if is_digit c then digits_value (10 * acc + digit_val c) cs
      else if c = CHR ''_'' then
        (case cs of
           [] \<Rightarrow> None
         | d # ds \<Rightarrow> if is_digit d then digits_value (10 * acc + digit_val d) ds else None)
      else None)"

text \<open>\<^verbatim>\<open>int(s)\<close> on a string: surrounding whitespace, an optional sign, digits.\<close>

definition int_of_str :: "string \<Rightarrow> int option" where
  "int_of_str s =
     (let t = strip s;
          neg = (t \<noteq> [] \<and> hd t = CHR ''-'');
          body = (if t \<noteq> [] \<and> (hd t = CHR ''-'' \<or> hd t = CHR ''+'') then tl t else t)
      in case body of
           [] \<Rightarrow> None
         | c # cs \<Rightarrow>
             if is_digit c
             then map_option (\<lambda>v. if neg then - int v else int v) (digits_value (digit_val c) cs)
             else None)"

subsection \<open>The functions of the module\<close>

definition count_wormhole_pairs :: "node list \<Rightarrow> int" where
  "count_wormhole_pairs nodes =
     int (length (filter (\<lambda>n. node_type n = ''WORMHOLE'') nodes)) div 2"

definition get_attack_type_from_stats :: "node list \<Rightarrow> string" where
  "get_attack_type_from_stats nodes =
     (let blackhole_count = length (filter (\<lambda>n. node_type n = ''BLACKHOLE'') nodes);
          wormhole_count = length (filter (\<lambda>n. node_type n = ''WORMHOLE'') nodes)
      in if blackhole_count > 0 \<and> wormhole_count = 0 then ''blackhole''
         else if wormhole_count > 0 \<and> blackhole_count = 0 then ''wormhole''
         else if blackhole_count = 0 \<and> wormhole_count = 0 then ''baseline''
         else ''mixed'')"

definition calculate_dynamic_limits ::
  "node list \<Rightarrow> node list \<Rightarrow> node list \<Rightarrow> string \<Rightarrow> int \<times> int" where
  "calculate_dynamic_limits nodes known_blackholes known_wormholes attack_type =
     (let total_nodes = int (length nodes);
          max_total_ban = max 6 (int_of_float (of_int total_nodes * 0.25));
          known_blackhole_count = int (length known_blackholes);
          known_wormhole_count = int (length known_wormholes)
      in if attack_type = ''blackhole''
         then (min max_total_ban (known_blackhole_count + 1), known_wormhole_count)
         else if attack_type = ''wormhole''
         then (known_blackhole_count, min max_total_ban (known_wormhole_count + 1))
         else (min max_total_ban (known_blackhole_count + 1),
               min max_total_ban (known_wormhole_count + 1)))"

text \<open>The four indicators of the blackhole test on one node.\<close>

definition blackhole_test :: "rat \<Rightarrow> node \<Rightarrow> bool" where
  "blackhole_test median_rx n =
     (let rx = rxPackets n; fwd = fwdPackets n; tx = txPackets n;
          zero_forwarding = (fwd = 0);
          high_traffic = (of_int rx > max 40 (median_rx * 2.5));
          not_source_node = (of_int tx < (of_int rx :: rat) * 0.25);
          meaningful_activity = (rx > 30)
      in zero_forwarding \<and> high_traffic \<and> not_source_node \<and> meaningful_activity)"

text \<open>The loop of \<open>detect_blackholes\<close> over the table.\<close>

fun blackhole_scan :: "rat \<Rightarrow> int list \<Rightarrow> node list \<Rightarrow> int list" where
  "blackhole_scan median_rx available_nodes [] = []"
| "blackhole_scan median_rx available_nodes (n # ns) =
     (if node_id n \<notin> set available_nodes then blackhole_scan median_rx available_nodes ns
      else if blackhole_test median_rx n
      then node_id n # blackhole_scan median_rx available_nodes ns
      else blackhole_scan median_rx available_nodes ns)"

definition detect_blackholes :: "node list \<Rightarrow> rat \<Rightarrow> int list \<Rightarrow> string \<Rightarrow> int list" where
  "detect_blackholes nodes median_rx available_nodes attack_type =
     (if attack_type \<noteq> ''blackhole'' then []
      else blackhole_scan median_rx available_nodes nodes)"

text \<open>The four indicators of the wormhole test on one node.\<close>

definition wormhole_test :: "rat \<Rightarrow> node \<Rightarrow> bool" where
  "wormhole_test median_rx n =
     (let rx = rxPackets n; fwd = fwdPackets n; tx = txPackets n;
          fwd_ratio = (of_int fwd :: rat) / (of_int rx + 0.001);
          extreme_traffic = (of_int rx > median_rx * 5.0);
          suspicious_pattern = (0.05 < fwd_ratio \<and> fwd_ratio < 0.25);
          not_primary_source = (of_int tx < (of_int rx :: rat) * 0.15);
          network_presence = (rx > 50)
      in extreme_traffic \<and> suspicious_pattern \<and> not_primary_source \<and> network_presence)"

fun wormhole_scan :: "rat \<Rightarrow> int list \<Rightarrow> node list \<Rightarrow> int list" where
  "wormhole_scan median_rx available_nodes [] = []"
| "wormhole_scan median_rx available_nodes (n # ns) =
     (if node_id n \<notin> set available_nodes then wormhole_scan median_rx available_nodes ns
      else if wormhole_test median_rx n
      then node_id n # wormhole_scan median_rx available_nodes ns
      else wormhole_scan median_rx available_nodes ns)"

definition detect_wormholes :: "node list \<Rightarrow> rat \<Rightarrow> int list \<Rightarrow> string \<Rightarrow> int list" where
  "detect_wormholes nodes median_rx available_nodes attack_type =
     (if attack_type \<noteq> ''wormhole'' then []
      else wormhole_scan median_rx available_nodes nodes)"

text \<open>
  Reading one category file: the non-blank lines, each converted by \<open>int\<close>. A line
  that does not convert raises inside the \<open>try\<close>, before the assignment, so the
  preserved list stays empty.
\<close>

definition read_banlist :: "string list \<Rightarrow> int list" where
  "read_banlist lines =
     (let parsed = map (\<lambda>line. int_of_str (strip line)) (filter (\<lambda>line. strip line \<noteq> []) lines)
      in if None \<in> set parsed then [] else map the parsed)"

definition preserve_existing_banlists :: "files \<Rightarrow> string \<Rightarrow> int list \<times> int list" where
  "preserve_existing_banlists fs attack_type =
     (let preserved_blackholes =
            (if attack_type \<noteq> ''blackhole''
             then (case blackhole_file fs of None \<Rightarrow> [] | Some lines \<Rightarrow> read_banlist lines)
             else []);
          preserved_wormholes =
            (if attack_type \<noteq> ''wormhole''
             then (case wormhole_file fs of None \<Rightarrow> [] | Some lines \<Rightarrow> read_banlist lines)
             else [])
      in (preserved_blackholes, preserved_wormholes))"

subsection \<open>The stages of \<open>main\<close>\<close>

definition known_blackholes :: "node list \<Rightarrow> node list" where
  "known_blackholes nodes = filter (\<lambda>n. node_type n = ''BLACKHOLE'') nodes"

definition known_wormholes :: "node list \<Rightarrow> node list" where
  "known_wormholes nodes = filter (\<lambda>n. node_type n = ''WORMHOLE'') nodes"

text \<open>The limits \<open>main\<close> computes for the run (lines 171 to 181).\<close>

definition run_limits :: "node list \<Rightarrow> int \<times> int" where
  "run_limits nodes =
     calculate_dynamic_limits nodes (known_blackholes nodes) (known_wormholes nodes)
       (get_attack_type_from_stats nodes)"

text \<open>The preserved lists of the run (line 189).\<close>

definition run_preserved :: "files \<Rightarrow> node list \<Rightarrow> int list \<times> int list" where
  "run_preserved fs nodes = preserve_existing_banlists fs (get_attack_type_from_stats nodes)"

text \<open>
  Lines 207 to 231: the additional detections, both empty when there are at most 15
  active nodes. The \<open>print\<close> of line 216 formats the median as a float and is not
  modelled.
\<close>

definition additional_detections :: "node list \<Rightarrow> py_error + (int list \<times> int list)" where
  "additional_detections nodes =
     (let attack_type = get_attack_type_from_stats nodes;
          active_nodes = filter (\<lambda>n. rxPackets n > 15 \<or> txPackets n > 15) nodes
      in if active_nodes \<noteq> [] \<and> length active_nodes > 15
         then (case median (map rxPackets active_nodes) of
                 Inl e \<Rightarrow> Inl e
               | Inr median_rx \<Rightarrow>
                   (let available_for_detection =
                          map node_id
                            (filter (\<lambda>n. node_type n \<notin> set [''BLACKHOLE'', ''WORMHOLE'', ''BANNED''])
                               nodes)
                    in Inr (detect_blackholes nodes median_rx available_for_detection attack_type,
                            detect_wormholes nodes median_rx available_for_detection attack_type)))
         else Inr ([], []))"

text \<open>Lines 237 to 243: one category list cut to its limit.\<close>

definition apply_limit :: "int list \<Rightarrow> int \<Rightarrow> int list" where
  "apply_limit banlist limit =
     (if int (length banlist) > limit then slice_to banlist limit else banlist)"

text \<open>
  Lines 192 to 229 for one category: the preserved and the known identifiers, sorted
  without duplicates, then the additional detections appended in scan order.
\<close>

definition before_limits :: "int list \<Rightarrow> node list \<Rightarrow> int list \<Rightarrow> int list" where
  "before_limits preserved known additional =
     sorted_set (preserved @ map node_id known) @ additional"

text \<open>Lines 170 to 248: the three lists before the safety check.\<close>

definition assemble_banlists :: "files \<Rightarrow> node list \<Rightarrow> py_error + banlists" where
  "assemble_banlists fs nodes =
     (let (max_blackhole, max_wormhole) = run_limits nodes;
          (preserved_blackholes, preserved_wormholes) = run_preserved fs nodes
      in case additional_detections nodes of
           Inl e \<Rightarrow> Inl e
         | Inr (additional_blackholes, additional_wormholes) \<Rightarrow>
             (let bh = sorted_set (apply_limit
                         (before_limits preserved_blackholes (known_blackholes nodes)
                            additional_blackholes) max_blackhole);
                  wh = sorted_set (apply_limit
                         (before_limits preserved_wormholes (known_wormholes nodes)
                            additional_wormholes) max_wormhole)
              in Inr \<lparr>blackhole_banlist = bh, wormhole_banlist = wh,
                       main_banlist = sorted_set (bh @ wh)\<rparr>))"

text \<open>The ratio of line 253 exceeds the ceiling of line 254.\<close>

definition ban_ratio_too_high :: "int list \<Rightarrow> node list \<Rightarrow> bool" where
  "ban_ratio_too_high banlist nodes =
     ((of_nat (length banlist) :: rat) / of_nat (length nodes) > 0.25)"

text \<open>Lines 262 to 267: the lists of the rollback.\<close>

definition rollback_banlists :: "files \<Rightarrow> node list \<Rightarrow> banlists" where
  "rollback_banlists fs nodes =
     (let (preserved_blackholes, preserved_wormholes) = run_preserved fs nodes
      in \<lparr>blackhole_banlist = map node_id (known_blackholes nodes) @ preserved_blackholes,
          wormhole_banlist = map node_id (known_wormholes nodes) @ preserved_wormholes,
          main_banlist =
            sorted_set (map node_id (known_blackholes nodes @ known_wormholes nodes)
                        @ preserved_blackholes @ preserved_wormholes)\<rparr>)"

text \<open>Lines 252 to 267: the safety check; the division raises on an empty table.\<close>

definition safety_check :: "files \<Rightarrow> node list \<Rightarrow> banlists \<Rightarrow> py_error + banlists" where
  "safety_check fs nodes b =
     (if length nodes = 0 then Inl ZeroDivisionError
      else if ban_ratio_too_high (main_banlist b) nodes then Inr (rollback_banlists fs nodes)
      else Inr b)"

text \<open>Lines 170 to 267: the lists handed to the writer.\<close>

definition final_banlists :: "files \<Rightarrow> node list \<Rightarrow> py_error + banlists" where
  "final_banlists fs nodes =
     (case assemble_banlists fs nodes of
        Inl e \<Rightarrow> Inl e
      | Inr b \<Rightarrow> safety_check fs nodes b)"

text \<open>The lines one \<open>for\<close> loop of the writer produces.\<close>

definition banlist_lines :: "int list \<Rightarrow> string list" where
  "banlist_lines banlist = map (\<lambda>node_id. str_int node_id @ [newline]) banlist"

text \<open>Lines 272 to 286: the writer.\<close>

definition write_banlists :: "string \<Rightarrow> banlists \<Rightarrow> files \<Rightarrow> files" where
  "write_banlists attack_type b fs =
     (let fs1 = (if attack_type = ''blackhole'' \<or> blackhole_banlist b \<noteq> []
                 then fs\<lparr>blackhole_file := Some (banlist_lines (blackhole_banlist b))\<rparr>
                 else fs);
          fs2 = (if attack_type = ''wormhole'' \<or> wormhole_banlist b \<noteq> []
                 then fs1\<lparr>wormhole_file := Some (banlist_lines (wormhole_banlist b))\<rparr>
                 else fs1)
      in fs2\<lparr>banlist_file := Some (banlist_lines (main_banlist b))\<rparr>)"

text \<open>
  \<open>main\<close>: the input is the loaded node table, or \<open>None\<close> when the input file is
  missing or a row does not parse (then \<open>main\<close> returns \<open>False\<close> and writes nothing).
  An exception leaves \<open>main\<close> before the writer, so no file changes.
\<close>

definition main :: "files \<Rightarrow> node list option \<Rightarrow> py_error + (files \<times> bool)" where
  "main fs input =
     (case input of
        None \<Rightarrow> Inr (fs, False)
      | Some nodes \<Rightarrow>
          (case final_banlists fs nodes of
             Inl e \<Rightarrow> Inl e
           | Inr b \<Rightarrow> Inr (write_banlists (get_attack_type_from_stats nodes) b fs, True)))"

subsection \<open>The limits as the specification words them\<close>

text \<open>
  Section 4.3 of the specification: \<open>base_cap = max(6, round_down(0.25 * total_nodes))\<close>;
  for a blackhole run the blackhole limit is \<open>min(base_cap, known + 1)\<close> and the wormhole
  limit is the known count; symmetrically for a wormhole run; otherwise (baseline or
  mixed) both are \<open>min(base_cap, known + 1)\<close>.
\<close>

definition spec_limits :: "nat \<Rightarrow> nat \<Rightarrow> nat \<Rightarrow> string \<Rightarrow> int \<times> int" where
  "spec_limits total_nodes known_blackhole_count known_wormhole_count attack_type =
     (let base_cap = max 6 \<lfloor>(1 / 4 :: rat) * of_nat total_nodes\<rfloor>
      in if attack_type = ''blackhole''
         then (min base_cap (int known_blackhole_count + 1), int known_wormhole_count)
         else if attack_type = ''wormhole''
         then (int known_blackhole_count, min base_cap (int known_wormhole_count + 1))
         else (min base_cap (int known_blackhole_count + 1),
               min base_cap (int known_wormhole_count + 1)))"

subsection \<open>Concrete tables and files\<close>

definition no_files :: files where
  "no_files = \<lparr>blackhole_file = None, wormhole_file = None, banlist_file = None\<rparr>"

text \<open>A node without traffic, and a node with counters \<open>tx\<close>, \<open>rx\<close>, \<open>fwd\<close>.\<close>

definition idle :: "int \<Rightarrow> string \<Rightarrow> node" where
  "idle i t = \<lparr>node_id = i, txPackets = 0, rxPackets = 0, fwdPackets = 0, node_type = t\<rparr>"

definition traffic :: "int \<Rightarrow> int \<Rightarrow> int \<Rightarrow> int \<Rightarrow> string \<Rightarrow> node" where
  "traffic i tx rx fwd t =
     \<lparr>node_id = i, txPackets = tx, rxPackets = rx, fwdPackets = fwd, node_type = t\<rparr>"

text \<open>
  Twelve idle nodes, one labelled blackhole (5) and one wormhole (7), run after an
  earlier run left a blackhole banlist with the identifiers 0 and 1.
\<close>

definition table12 :: "node list" where
  "table12 =
     [idle 0 ''NORMAL'', idle 1 ''NORMAL'', idle 2 ''NORMAL'', idle 3 ''NORMAL'',
      idle 4 ''NORMAL'', idle 5 ''BLACKHOLE'', idle 6 ''NORMAL'', idle 7 ''WORMHOLE'',
      idle 8 ''NORMAL'', idle 9 ''NORMAL'', idle 10 ''NORMAL'', idle 11 ''NORMAL'']"

definition prior_blackhole_files :: files where
  "prior_blackhole_files =
     \<lparr>blackhole_file = Some [''0\<newline>'', ''1\<newline>''], wormhole_file = None, banlist_file = Some [''0\<newline>'', ''1\<newline>'']\<rparr>"

text \<open>Seven nodes, all labelled blackhole.\<close>

definition table7 :: "node list" where
  "table7 =
     [idle 0 ''BLACKHOLE'', idle 1 ''BLACKHOLE'', idle 2 ''BLACKHOLE'', idle 3 ''BLACKHOLE'',
      idle 4 ''BLACKHOLE'', idle 5 ''BLACKHOLE'', idle 6 ''BLACKHOLE'']"

text \<open>
  Eighteen nodes: 17 is labelled blackhole, 0 and 1 receive 120 packets and forward
  none, the fifteen others carry ordinary traffic (17 active nodes, median 20).
\<close>

definition table18 :: "node list" where
  "table18 =
     [traffic 0 10 120 0 ''NORMAL'', traffic 1 10 120 0 ''NORMAL'',
      traffic 2 20 20 5 ''NORMAL'', traffic 3 20 20 5 ''NORMAL'', traffic 4 20 20 5 ''NORMAL'',
      traffic 5 20 20 5 ''NORMAL'', traffic 6 20 20 5 ''NORMAL'', traffic 7 20 20 5 ''NORMAL'',
      traffic 8 20 20 5 ''NORMAL'', traffic 9 20 20 5 ''NORMAL'', traffic 10 20 20 5 ''NORMAL'',
      traffic 11 20 20 5 ''NORMAL'', traffic 12 20 20 5 ''NORMAL'', traffic 13 20 20 5 ''NORMAL'',
      traffic 14 20 20 5 ''NORMAL'', traffic 15 20 20 5 ''NORMAL'', traffic 16 20 20 5 ''NORMAL'',
      idle 17 ''BLACKHOLE'']"

text \<open>
  Sixteen active nodes: 0 to 3 are labelled blackhole, 4 receives 120 packets and
  forwards none, the others carry ordinary traffic (median 20). An earlier wormhole run
  left a wormhole banlist with the identifier 9.
\<close>

definition table16 :: "node list" where
  "table16 =
     [traffic 0 0 20 0 ''BLACKHOLE'', traffic 1 0 20 0 ''BLACKHOLE'',
      traffic 2 0 20 0 ''BLACKHOLE'', traffic 3 0 20 0 ''BLACKHOLE'',
      traffic 4 10 120 0 ''NORMAL'',
      traffic 5 20 20 5 ''NORMAL'', traffic 6 20 20 5 ''NORMAL'', traffic 7 20 20 5 ''NORMAL'',
      traffic 8 20 20 5 ''NORMAL'', traffic 9 20 20 5 ''NORMAL'', traffic 10 20 20 5 ''NORMAL'',
      traffic 11 20 20 5 ''NORMAL'', traffic 12 20 20 5 ''NORMAL'', traffic 13 20 20 5 ''NORMAL'',
      traffic 14 20 20 5 ''NORMAL'', traffic 15 20 20 5 ''NORMAL'']"

definition prior_wormhole_files :: files where
  "prior_wormhole_files =
     \<lparr>blackhole_file = None, wormhole_file = Some [''9\<newline>''],
      banlist_file = Some [''9\<newline>'']\<rparr>"

text \<open>
  An earlier run left a blackhole banlist with the identifiers 3 and 4.
\<close>

definition prior_baseline_files :: files where
  "prior_baseline_files =
     \<lparr>blackhole_file = Some [''3\<newline>'', ''4\<newline>''], wormhole_file = None,
      banlist_file = Some [''3\<newline>'', ''4\<newline>'']\<rparr>"

section \<open>Properties\<close>

subsection \<open>Sorting without duplicates\<close>

lemma sorted_set_eq: "sorted_set xs = sorted_list_of_set (set xs)"
  by (simp add: sorted_set_def sorted_list_of_set_sort_remdups)

lemma set_sorted_set: "set (sorted_set xs) = set xs"
  by (simp add: sorted_set_def)

lemma sorted_sorted_set: "sorted (sorted_set xs)"
  by (simp add: sorted_set_def)

lemma distinct_sorted_set: "distinct (sorted_set xs)"
  by (simp add: sorted_set_def)

lemma sorted_set_cong: "set xs = set ys \<Longrightarrow> sorted_set xs = sorted_set ys"
  by (simp add: sorted_set_eq)

lemma length_sorted_set_le: "length (sorted_set xs) \<le> length xs"
  by (simp add: sorted_set_def)

lemma sorted_set_idem: "sorted xs \<Longrightarrow> distinct xs \<Longrightarrow> sorted_set xs = xs"
  by (simp add: sorted_set_def distinct_remdups_id sorted_sort_id)

lemma sorted_set_take: "sorted_set (take n (sorted_set xs)) = take n (sorted_set xs)"
  by (rule sorted_set_idem) (simp_all add: sorted_sorted_set distinct_sorted_set sorted_wrt_take)

subsection \<open>Writing a banlist and reading it back\<close>

lemma of_char_digit_char: "d < 10 \<Longrightarrow> of_char (digit_char d) = (48 + d :: nat)"
  by (simp add: digit_char_def)

lemma is_digit_digit_char: "d < 10 \<Longrightarrow> is_digit (digit_char d)"
  by (simp add: is_digit_def of_char_digit_char)

lemma digit_val_digit_char: "d < 10 \<Longrightarrow> digit_val (digit_char d) = d"
  by (simp add: digit_val_def of_char_digit_char)

lemma is_digit_not_space: "is_digit c \<Longrightarrow> \<not> is_space c"
  by (simp add: is_digit_def is_space_def Let_def)

lemma is_digit_not_sign: "is_digit c \<Longrightarrow> c \<noteq> CHR ''-'' \<and> c \<noteq> CHR ''+''"
  by (auto simp: is_digit_def)

lemma digits_of_all_digits: "\<forall>c\<in>set (digits_of n). is_digit c"
proof (induction n rule: digits_of.induct)
  case (1 n)
  show ?case
  proof (cases "n < 10")
    case True
    then show ?thesis by (simp add: digits_of.simps [of n] is_digit_digit_char)
  next
    case False
    with "1" show ?thesis by (simp add: digits_of.simps [of n] is_digit_digit_char)
  qed
qed

lemma digits_of_nonempty: "digits_of n \<noteq> []"
  by (simp add: digits_of.simps [of n])

lemma foldl_digits_of: "foldl (\<lambda>a c. 10 * a + digit_val c) 0 (digits_of n) = n"
proof (induction n rule: digits_of.induct)
  case (1 n)
  show ?case
  proof (cases "n < 10")
    case True
    then show ?thesis by (simp add: digits_of.simps [of n] digit_val_digit_char)
  next
    case False
    with "1" show ?thesis by (simp add: digits_of.simps [of n] digit_val_digit_char)
  qed
qed

lemma digits_value_digits:
  "\<forall>c\<in>set s. is_digit c \<Longrightarrow> digits_value acc s = Some (foldl (\<lambda>a c. 10 * a + digit_val c) acc s)"
  by (induction s arbitrary: acc) simp_all

lemma digits_value_digits_of:
  assumes "digits_of n = c # cs"
  shows "is_digit c \<and> digits_value (digit_val c) cs = Some n"
proof -
  have all: "\<forall>d\<in>set (c # cs). is_digit d"
    using digits_of_all_digits [of n] assms by simp
  have "foldl (\<lambda>a c. 10 * a + digit_val c) 0 (c # cs) = n"
    using foldl_digits_of [of n] assms by simp
  then have "foldl (\<lambda>a c. 10 * a + digit_val c) (digit_val c) cs = n" by simp
  with all show ?thesis by (simp add: digits_value_digits)
qed

lemma is_space_newline: "is_space newline"
  by (simp add: is_space_def newline_def)

lemma dropWhile_id: "xs \<noteq> [] \<Longrightarrow> \<not> P (hd xs) \<Longrightarrow> dropWhile P xs = xs"
  by (cases xs) simp_all

lemma strip_id:
  assumes "s \<noteq> []" "\<not> is_space (hd s)" "\<not> is_space (last s)"
  shows "strip s = s"
proof -
  have a: "dropWhile is_space s = s" using assms by (simp add: dropWhile_id)
  have b: "dropWhile is_space (rev s) = rev s" using assms by (simp add: dropWhile_id hd_rev)
  show ?thesis by (simp add: strip_def a b)
qed

lemma strip_newline:
  assumes "s \<noteq> []" "\<not> is_space (hd s)" "\<not> is_space (last s)"
  shows "strip (s @ [newline]) = s"
proof -
  have a: "dropWhile is_space (s @ [newline]) = s @ [newline]"
    using assms by (simp add: dropWhile_id)
  have b: "dropWhile is_space (rev s) = rev s" using assms by (simp add: dropWhile_id hd_rev)
  show ?thesis by (simp add: strip_def a b is_space_newline)
qed

lemma str_int_ends:
  "str_int n \<noteq> [] \<and> \<not> is_space (hd (str_int n)) \<and> \<not> is_space (last (str_int n))"
proof -
  let ?m = "if n < 0 then nat (- n) else nat n"
  have ne: "digits_of ?m \<noteq> []" by (rule digits_of_nonempty)
  have "last (digits_of ?m) \<in> set (digits_of ?m)" using ne by simp
  then have l: "\<not> is_space (last (digits_of ?m))"
    using digits_of_all_digits [of ?m] is_digit_not_space by blast
  have "hd (digits_of ?m) \<in> set (digits_of ?m)" using ne by simp
  then have h: "\<not> is_space (hd (digits_of ?m))"
    using digits_of_all_digits [of ?m] is_digit_not_space by blast
  have m: "\<not> is_space CHR ''-''" by (simp add: is_space_def)
  show ?thesis using ne l h m by (auto simp: str_int_def)
qed

lemma int_of_str_str_int: "int_of_str (str_int n) = Some n"
proof -
  have s: "strip (str_int n) = str_int n" using str_int_ends [of n] by (simp add: strip_id)
  show ?thesis
  proof (cases "n < 0")
    case True
    obtain c cs where d: "digits_of (nat (- n)) = c # cs"
      using digits_of_nonempty [of "nat (- n)"] by (cases "digits_of (nat (- n))") auto
    have t: "strip (CHR ''-'' # c # cs) = CHR ''-'' # c # cs"
      using s True by (simp add: str_int_def d)
    from digits_value_digits_of [OF d] True show ?thesis
      by (simp add: int_of_str_def t str_int_def d)
  next
    case False
    obtain c cs where d: "digits_of (nat n) = c # cs"
      using digits_of_nonempty [of "nat n"] by (cases "digits_of (nat n)") auto
    have t: "strip (c # cs) = c # cs"
      using s False by (simp add: str_int_def d)
    from digits_value_digits_of [OF d] is_digit_not_sign [of c] False show ?thesis
      by (simp add: int_of_str_def t str_int_def d)
  qed
qed

lemma strip_banlist_line: "strip (str_int n @ [newline]) = str_int n"
  using str_int_ends [of n] by (simp add: strip_newline)

lemma read_banlist_lines: "read_banlist (banlist_lines ns) = ns"
proof -
  have f: "filter (\<lambda>line. strip line \<noteq> []) (banlist_lines ns) = banlist_lines ns"
    using str_int_ends by (simp add: banlist_lines_def strip_banlist_line filter_map o_def)
  have m: "map (\<lambda>line. int_of_str (strip line)) (banlist_lines ns) = map Some ns"
    by (simp add: banlist_lines_def strip_banlist_line int_of_str_str_int o_def)
  show ?thesis by (simp add: read_banlist_def f m o_def)
qed

subsection \<open>The stages always return, except for the division\<close>

lemma median_ok:
  assumes "xs \<noteq> []"
  shows "\<exists>m. median xs = Inr m"
proof -
  have n: "length (sort xs) \<noteq> 0" using assms by simp
  show ?thesis
  proof (cases "length (sort xs) mod 2 = 1")
    case True
    have "median xs = Inr (of_int (sort xs ! (length (sort xs) div 2)))"
      unfolding median_def Let_def using n True by (simp only: if_False if_True simp_thms)
    then show ?thesis by blast
  next
    case False
    have "median xs =
      Inr ((of_int (sort xs ! (length (sort xs) div 2 - 1))
            + of_int (sort xs ! (length (sort xs) div 2))) / 2)"
      unfolding median_def Let_def using n False by (simp only: if_False simp_thms)
    then show ?thesis by blast
  qed
qed

lemma additional_detections_ok: "\<exists>a w. additional_detections nodes = Inr (a, w)"
proof -
  let ?active = "filter (\<lambda>n. rxPackets n > 15 \<or> txPackets n > 15) nodes"
  show ?thesis
  proof (cases "?active \<noteq> [] \<and> length ?active > 15")
    case True
    then have "map rxPackets ?active \<noteq> []" by simp
    then obtain m where "median (map rxPackets ?active) = Inr m"
      using median_ok by blast
    with True show ?thesis by (simp add: additional_detections_def Let_def)
  next
    case False
    then have "additional_detections nodes = Inr ([], [])"
      unfolding additional_detections_def Let_def by (rule if_not_P)
    then show ?thesis by blast
  qed
qed

lemma assemble_banlists_eq:
  "additional_detections nodes = Inr (abh, awh) \<Longrightarrow>
   assemble_banlists fs nodes =
     Inr \<lparr>blackhole_banlist =
            sorted_set (apply_limit (before_limits (fst (run_preserved fs nodes))
              (known_blackholes nodes) abh) (fst (run_limits nodes))),
          wormhole_banlist =
            sorted_set (apply_limit (before_limits (snd (run_preserved fs nodes))
              (known_wormholes nodes) awh) (snd (run_limits nodes))),
          main_banlist =
            sorted_set
              (sorted_set (apply_limit (before_limits (fst (run_preserved fs nodes))
                 (known_blackholes nodes) abh) (fst (run_limits nodes)))
               @ sorted_set (apply_limit (before_limits (snd (run_preserved fs nodes))
                 (known_wormholes nodes) awh) (snd (run_limits nodes))))\<rparr>"
  by (simp add: assemble_banlists_def Let_def split: prod.splits)

lemma assemble_banlists_ok: "\<exists>b. assemble_banlists fs nodes = Inr b"
  using additional_detections_ok [of nodes] assemble_banlists_eq by blast

lemma assemble_main_banlist:
  "assemble_banlists fs nodes = Inr b \<Longrightarrow>
   main_banlist b = sorted_set (blackhole_banlist b @ wormhole_banlist b)"
  using additional_detections_ok [of nodes] by (auto simp: assemble_banlists_eq)

lemma limits_nonneg:
  "0 \<le> fst (calculate_dynamic_limits nodes kb kw atk) \<and>
   0 \<le> snd (calculate_dynamic_limits nodes kb kw atk)"
  by (simp add: calculate_dynamic_limits_def Let_def)

lemma length_apply_limit: "0 \<le> N \<Longrightarrow> int (length (apply_limit xs N)) \<le> N"
  by (auto simp: apply_limit_def slice_to_def)

lemma apply_limit_take: "0 \<le> N \<Longrightarrow> N < int (length xs) \<Longrightarrow> apply_limit xs N = take (nat N) xs"
  by (simp add: apply_limit_def slice_to_def)

lemma final_banlists_cases:
  "nodes \<noteq> [] \<Longrightarrow> assemble_banlists fs nodes = Inr b \<Longrightarrow>
   final_banlists fs nodes =
     Inr (if ban_ratio_too_high (main_banlist b) nodes then rollback_banlists fs nodes else b)"
  by (simp add: final_banlists_def safety_check_def)

lemma final_banlists_empty: "final_banlists fs [] = Inl ZeroDivisionError"
  using assemble_banlists_ok [of fs "[]"] by (auto simp: final_banlists_def safety_check_def)

lemma ban_ratio_too_high_iff:
  "nodes \<noteq> [] \<Longrightarrow> ban_ratio_too_high xs nodes \<longleftrightarrow> length nodes < 4 * length xs"
proof -
  assume "nodes \<noteq> []"
  then have pos: "(0::rat) < of_nat (length nodes)" by simp
  have "ban_ratio_too_high xs nodes \<longleftrightarrow> (of_nat (length nodes) :: rat) < 4 * of_nat (length xs)"
    using pos by (simp add: ban_ratio_too_high_def field_simps)
  also have "\<dots> \<longleftrightarrow> (of_nat (length nodes) :: rat) < of_nat (4 * length xs)" by simp
  also have "\<dots> \<longleftrightarrow> length nodes < 4 * length xs" by (simp only: of_nat_less_iff)
  finally show ?thesis .
qed

lemma rollback_main:
  "main_banlist (rollback_banlists fs nodes) =
   sorted_set (blackhole_banlist (rollback_banlists fs nodes) @ wormhole_banlist (rollback_banlists fs nodes))"
  by (auto simp: rollback_banlists_def split: prod.splits intro!: sorted_set_cong)


lemma run_limits_nonneg: "0 \<le> fst (run_limits nodes) \<and> 0 \<le> snd (run_limits nodes)"
  unfolding run_limits_def by (rule limits_nonneg)

lemma length_limited:
  "0 \<le> N \<Longrightarrow> int (length (sorted_set (apply_limit xs N))) \<le> N"
  using length_sorted_set_le [of "apply_limit xs N"] length_apply_limit [of N xs] by linarith

lemma int_of_float_quarter: "int_of_float (of_int (int n) * 0.25) = \<lfloor>(1 / 4 :: rat) * of_nat n\<rfloor>"
proof -
  have eq: "(of_int (int n) :: rat) * 0.25 = (1 / 4) * of_nat n" by simp
  have "(0::rat) \<le> (1 / 4) * of_nat n" by simp
  then show ?thesis unfolding eq int_of_float_def by (simp only: if_True)
qed

lemma spec_limits_floor: "\<lfloor>(1 / 4 :: rat) * of_nat n\<rfloor> = int (n div 4)"
proof -
  have "(1 / 4 :: rat) * of_nat n = of_nat n / of_nat 4" by simp
  then show ?thesis by (simp only: floor_divide_of_nat_eq)
qed

lemma preserve_after_write:
  "(attack_type = ''blackhole'' \<or> blackhole_banlist b \<noteq> [] \<Longrightarrow> later \<noteq> ''blackhole'' \<Longrightarrow>
      fst (preserve_existing_banlists (write_banlists attack_type b fs) later)
        = blackhole_banlist b)"
  "(attack_type = ''wormhole'' \<or> wormhole_banlist b \<noteq> [] \<Longrightarrow> later \<noteq> ''wormhole'' \<Longrightarrow>
      snd (preserve_existing_banlists (write_banlists attack_type b fs) later)
        = wormhole_banlist b)"
  by (auto simp: preserve_existing_banlists_def write_banlists_def Let_def read_banlist_lines)

subsection \<open>The detectors on a concrete node\<close>

lemma detect_blackholes_fires:
  "detect_blackholes [traffic 0 10 120 0 ''NORMAL''] 20 [0] ''blackhole'' = [0]"
  by code_simp

section \<open>The claims\<close>

subsection \<open>C1: known-malicious identifiers in the final banlists\<close>

text \<open>
  Claim C1 says that every node labelled BLACKHOLE (WORMHOLE) in the current run is in the
  final blackhole (wormhole) banlist, also after truncation. The program states the same
  intent (``Always ban known malicious nodes from current simulation'', line 195) but
  truncates the sorted merge of preserved and known identifiers: on \<open>table12\<close>, a mixed
  run with the preserved blackhole identifiers 0 and 1, the limit is 2, the merge is
  \<open>[0, 1, 5]\<close>, and the known blackhole 5 is cut. The ratio 3/12 does not exceed 0.25,
  so there is no rollback and \<open>[0, 1]\<close> is final.
\<close>

theorem known_blackhole_truncated:
  "map node_id (known_blackholes table12) = [5] \<and>
   final_banlists prior_blackhole_files table12 =
     Inr \<lparr>blackhole_banlist = [0, 1], wormhole_banlist = [7], main_banlist = [0, 1, 7]\<rparr> \<and>
   5 \<notin> set [0, 1 :: int]"
proof -
  have a: "map node_id (known_blackholes table12) = [5]" by code_simp
  have b: "final_banlists prior_blackhole_files table12 =
     Inr \<lparr>blackhole_banlist = [0, 1], wormhole_banlist = [7], main_banlist = [0, 1, 7]\<rparr>"
    by code_simp
  have c: "5 \<notin> set [0, 1 :: int]" by simp
  from a b c show ?thesis by blast
qed

subsection \<open>C2: the global ban ratio\<close>

text \<open>
  Claim C2 as stated (the final combined banlist never exceeds the ratio 0.25) fails: a
  table of one node labelled BLACKHOLE rolls back to the known identifiers, and the final
  combined list \<open>[0]\<close> has ratio 1.
\<close>

theorem ratio_ceiling_counterexample:
  "final_banlists no_files [idle 0 ''BLACKHOLE''] =
     Inr \<lparr>blackhole_banlist = [0], wormhole_banlist = [], main_banlist = [0]\<rparr> \<and>
   \<not> (of_nat (length [0 :: int]) / of_nat (length [idle 0 ''BLACKHOLE'']) \<le> (0.25 :: rat))"
proof -
  have a: "final_banlists no_files [idle 0 ''BLACKHOLE''] =
     Inr \<lparr>blackhole_banlist = [0], wormhole_banlist = [], main_banlist = [0]\<rparr>"
    by code_simp
  have b: "\<not> (of_nat (length [0 :: int]) / of_nat (length [idle 0 ''BLACKHOLE'']) \<le> (0.25 :: rat))"
    by simp
  from a b show ?thesis by (rule conjI)
qed

text \<open>
  Claim C2, amended: for a run that reaches the writer, if the combined list built
  before the safety check is within the ceiling (four times its length is at most the
  number of nodes), it is final together with its category lists, so the final ratio is
  at most 0.25. Whenever it exceeds the ceiling, the rollback is taken and the resulting
  lists contain only the known-malicious identifiers of the run and the preserved ones:
  each category list holds exactly the known and preserved identifiers of its category,
  and the combined list is the ascending duplicate-free list of all of them, so every
  additional detection is discarded. The theorem speaks of the identifiers of the
  rolled-back category lists only, not of their order or repetitions.
\<close>

theorem safety_check_rolls_back:
  assumes "assemble_banlists fs nodes = Inr b" and "final_banlists fs nodes = Inr r"
  shows "if length nodes < 4 * length (main_banlist b)
         then set (blackhole_banlist r) =
                set (map node_id (known_blackholes nodes)) \<union> set (fst (run_preserved fs nodes)) \<and>
              set (wormhole_banlist r) =
                set (map node_id (known_wormholes nodes)) \<union> set (snd (run_preserved fs nodes)) \<and>
              main_banlist r =
                sorted_list_of_set
                  (set (map node_id (known_blackholes nodes)) \<union>
                   set (map node_id (known_wormholes nodes)) \<union>
                   set (fst (run_preserved fs nodes)) \<union> set (snd (run_preserved fs nodes)))
         else r = b \<and> 4 * length (main_banlist r) \<le> length nodes"
proof -
  have ne: "nodes \<noteq> []" using assms(2) final_banlists_empty [of fs] by auto
  have r: "r = (if ban_ratio_too_high (main_banlist b) nodes
                then rollback_banlists fs nodes else b)"
    using assms(2) final_banlists_cases [OF ne assms(1)] by simp
  have iff: "ban_ratio_too_high (main_banlist b) nodes \<longleftrightarrow>
             length nodes < 4 * length (main_banlist b)"
    by (rule ban_ratio_too_high_iff [OF ne])
  show ?thesis
  proof (cases "length nodes < 4 * length (main_banlist b)")
    case True
    then have "r = rollback_banlists fs nodes" using r iff by simp
    with True show ?thesis
      by (simp add: rollback_banlists_def sorted_set_eq Un_ac split: prod.splits)
  next
    case False
    then have "r = b" using r iff by simp
    with False show ?thesis by simp
  qed
qed

text \<open>
  Witness for C2: on \<open>table16\<close>, a blackhole run after a wormhole run that banned
  node 9, the detector flags node 4 and the combined list \<open>[0, 1, 2, 3, 4]\<close> has ratio
  5/16. The rollback discards node 4 and restores the preserved wormhole identifier 9,
  which the wormhole limit 0 had cut.
\<close>

theorem safety_check_rolls_back_witness:
  "assemble_banlists prior_wormhole_files table16 =
     Inr \<lparr>blackhole_banlist = [0, 1, 2, 3, 4], wormhole_banlist = [],
          main_banlist = [0, 1, 2, 3, 4]\<rparr> \<and>
   final_banlists prior_wormhole_files table16 =
     Inr \<lparr>blackhole_banlist = [0, 1, 2, 3], wormhole_banlist = [9],
          main_banlist = [0, 1, 2, 3, 9]\<rparr> \<and>
   additional_detections table16 = Inr ([4], []) \<and>
   length table16 < 4 * length [0, 1, 2, 3, 4 :: int] \<and>
   set [0, 1, 2, 3] =
     set (map node_id (known_blackholes table16)) \<union> set (fst (run_preserved prior_wormhole_files table16)) \<and>
   set [9] =
     set (map node_id (known_wormholes table16)) \<union> set (snd (run_preserved prior_wormhole_files table16)) \<and>
   4 \<notin> set [0, 1, 2, 3 :: int]"
proof -
  have h1: "assemble_banlists prior_wormhole_files table16 =
     Inr \<lparr>blackhole_banlist = [0, 1, 2, 3, 4], wormhole_banlist = [],
          main_banlist = [0, 1, 2, 3, 4]\<rparr>"
    by code_simp
  have h2: "final_banlists prior_wormhole_files table16 =
     Inr \<lparr>blackhole_banlist = [0, 1, 2, 3], wormhole_banlist = [9],
          main_banlist = [0, 1, 2, 3, 9]\<rparr>"
    by code_simp
  have h3: "additional_detections table16 = Inr ([4], [])" by code_simp
  have h4: "length table16 < 4 * length [0, 1, 2, 3, 4 :: int]" by code_simp
  have h5: "4 \<notin> set [0, 1, 2, 3 :: int]" by simp
  from safety_check_rolls_back [OF h1 h2] h4
  have "set [0, 1, 2, 3] =
     set (map node_id (known_blackholes table16)) \<union> set (fst (run_preserved prior_wormhole_files table16)) \<and>
   set [9] =
     set (map node_id (known_wormholes table16)) \<union> set (snd (run_preserved prior_wormhole_files table16))"
    by simp
  with h1 h2 h3 h4 h5 show ?thesis by blast
qed

subsection \<open>C3: the category limits\<close>

text \<open>
  Claim C3 as stated (both category lists are within their limits after the safety check)
  fails: seven blackhole nodes give the limit 6, the truncated list has ratio 6/7, and the
  rollback restores all seven known identifiers.
\<close>

theorem limits_counterexample:
  "run_limits table7 = (6, 0) \<and>
   final_banlists no_files table7 =
     Inr \<lparr>blackhole_banlist = [0, 1, 2, 3, 4, 5, 6], wormhole_banlist = [],
          main_banlist = [0, 1, 2, 3, 4, 5, 6]\<rparr> \<and>
   \<not> int (length [0, 1, 2, 3, 4, 5, 6 :: int]) \<le> 6"
proof -
  have a: "run_limits table7 = (6, 0)" by code_simp
  have b: "final_banlists no_files table7 =
     Inr \<lparr>blackhole_banlist = [0, 1, 2, 3, 4, 5, 6], wormhole_banlist = [],
          main_banlist = [0, 1, 2, 3, 4, 5, 6]\<rparr>" by code_simp
  have c: "\<not> int (length [0, 1, 2, 3, 4, 5, 6 :: int]) \<le> 6" by simp
  from a b c show ?thesis by blast
qed

text \<open>
  Claim C3, amended: for every node table and preserved content, the blackhole and
  wormhole lists built by truncation, before the safety check, have at most
  \<open>max_blackhole\<close> and \<open>max_wormhole\<close> entries; and when the run reaches the writer
  without a rollback, the final lists have these bounds.
\<close>

theorem limits_hold_without_rollback:
  assumes "assemble_banlists fs nodes = Inr b"
  shows "int (length (blackhole_banlist b)) \<le> fst (run_limits nodes) \<and>
         int (length (wormhole_banlist b)) \<le> snd (run_limits nodes) \<and>
         (final_banlists fs nodes = Inr r \<longrightarrow>
          \<not> ban_ratio_too_high (main_banlist b) nodes \<longrightarrow>
            int (length (blackhole_banlist r)) \<le> fst (run_limits nodes) \<and>
            int (length (wormhole_banlist r)) \<le> snd (run_limits nodes))"
proof -
  obtain a w where aw: "additional_detections nodes = Inr (a, w)"
    using additional_detections_ok by blast
  have bh: "int (length (blackhole_banlist b)) \<le> fst (run_limits nodes)"
    using assms run_limits_nonneg [of nodes]
    by (auto simp: assemble_banlists_eq [OF aw] intro: length_limited)
  have wh: "int (length (wormhole_banlist b)) \<le> snd (run_limits nodes)"
    using assms run_limits_nonneg [of nodes]
    by (auto simp: assemble_banlists_eq [OF aw] intro: length_limited)
  have "r = b"
    if f: "final_banlists fs nodes = Inr r"
      and "\<not> ban_ratio_too_high (main_banlist b) nodes"
  proof -
    have ne: "nodes \<noteq> []" using f final_banlists_empty [of fs] by auto
    show ?thesis using that final_banlists_cases [OF ne assms] by simp
  qed
  with bh wh show ?thesis by blast
qed

text \<open>
  Witness for C3: the mixed run on \<open>table12\<close> does not roll back, and its lists
  \<open>[0, 1]\<close> and \<open>[7]\<close> are within the limits 2 and 2; on the empty table the
  preserved identifiers 3 and 4 are cut to the limit 1 before the division raises.
\<close>

theorem limits_hold_without_rollback_witness:
  "assemble_banlists prior_blackhole_files table12 =
     Inr \<lparr>blackhole_banlist = [0, 1], wormhole_banlist = [7], main_banlist = [0, 1, 7]\<rparr> \<and>
   final_banlists prior_blackhole_files table12 =
     Inr \<lparr>blackhole_banlist = [0, 1], wormhole_banlist = [7], main_banlist = [0, 1, 7]\<rparr> \<and>
   \<not> ban_ratio_too_high [0, 1, 7] table12 \<and>
   run_limits table12 = (2, 2) \<and>
   int (length [0, 1 :: int]) \<le> fst (run_limits table12) \<and>
   int (length [7 :: int]) \<le> snd (run_limits table12) \<and>
   assemble_banlists prior_baseline_files [] =
     Inr \<lparr>blackhole_banlist = [3], wormhole_banlist = [], main_banlist = [3]\<rparr> \<and>
   run_limits [] = (1, 1) \<and>
   int (length [3 :: int]) \<le> fst (run_limits [])"
proof -
  have h1: "assemble_banlists prior_blackhole_files table12 =
     Inr \<lparr>blackhole_banlist = [0, 1], wormhole_banlist = [7], main_banlist = [0, 1, 7]\<rparr>"
    by code_simp
  have h2: "final_banlists prior_blackhole_files table12 =
     Inr \<lparr>blackhole_banlist = [0, 1], wormhole_banlist = [7], main_banlist = [0, 1, 7]\<rparr>"
    by code_simp
  have h3: "\<not> ban_ratio_too_high [0, 1, 7] table12" by code_simp
  have h4: "run_limits table12 = (2, 2)" by code_simp
  have h5: "assemble_banlists prior_baseline_files [] =
     Inr \<lparr>blackhole_banlist = [3], wormhole_banlist = [], main_banlist = [3]\<rparr>"
    by code_simp
  have h6: "run_limits [] = (1, 1)" by code_simp
  have a: "int (length [0, 1 :: int]) \<le> fst (run_limits table12) \<and>
           int (length [7 :: int]) \<le> snd (run_limits table12)"
    using limits_hold_without_rollback [OF h1,
      of "\<lparr>blackhole_banlist = [0, 1], wormhole_banlist = [7], main_banlist = [0, 1, 7]\<rparr>"]
      h2 h3 by simp
  have b: "int (length [3 :: int]) \<le> fst (run_limits [])"
    using limits_hold_without_rollback [OF h5] by simp
  from h1 h2 h3 h4 h5 h6 a b show ?thesis by blast
qed

subsection \<open>C4: what truncation retains\<close>

text \<open>
  Claim C4 as stated (truncation retains the N smallest identifiers of the merged set of
  preserved, known and detected identifiers) fails: on \<open>table18\<close> the merged set is
  \<open>{0, 1, 17}\<close> and the limit is 2, so the two smallest are 0 and 1, but the program
  retains 0 and 17: the detections 0 and 1 are appended after the known 17 and the cut
  takes the first two entries of \<open>[17, 0, 1]\<close>.
\<close>

theorem lowest_ids_counterexample:
  "run_preserved no_files table18 = ([], []) \<and>
   map node_id (known_blackholes table18) = [17] \<and>
   additional_detections table18 = Inr ([0, 1], []) \<and>
   run_limits table18 = (2, 0) \<and>
   final_banlists no_files table18 =
     Inr \<lparr>blackhole_banlist = [0, 17], wormhole_banlist = [], main_banlist = [0, 17]\<rparr> \<and>
   take 2 (sorted_set ([] @ [17] @ [0, 1])) = [0, 1] \<and> [0, 17] \<noteq> [0, 1 :: int]"
proof -
  have a: "run_preserved no_files table18 = ([], [])" by code_simp
  have b: "map node_id (known_blackholes table18) = [17]" by code_simp
  have c: "additional_detections table18 = Inr ([0, 1], [])" by code_simp
  have d: "run_limits table18 = (2, 0)" by code_simp
  have e: "final_banlists no_files table18 =
     Inr \<lparr>blackhole_banlist = [0, 17], wormhole_banlist = [], main_banlist = [0, 17]\<rparr>"
    by code_simp
  have f: "take 2 (sorted_set ([] @ [17] @ [0, 1])) = [0, 1]" by code_simp
  have g: "[0, 17] \<noteq> [0, 1 :: int]" by simp
  from a b c d e f g show ?thesis by blast
qed

text \<open>
  Claim C4, amended: when the list before the limits (the ascending duplicate-free merge
  of preserved and known identifiers, followed by the additional detections in scan
  order) is longer than the category's limit N, the retained entries are the first N
  entries of that list, sorted again; so lowest identifiers are favoured among preserved
  and known ones, and detections only fill what is left. Without additional detections
  the retained entries are exactly the N smallest identifiers of the merged set.
\<close>

theorem truncation_keeps_prefix:
  assumes "assemble_banlists fs nodes = Inr b"
    and "additional_detections nodes = Inr (abh, awh)"
  shows "(fst (run_limits nodes)
            < int (length (before_limits (fst (run_preserved fs nodes))
                             (known_blackholes nodes) abh)) \<longrightarrow>
          blackhole_banlist b =
            sorted_set (take (nat (fst (run_limits nodes)))
              (sorted_set (fst (run_preserved fs nodes) @ map node_id (known_blackholes nodes))
               @ abh)) \<and>
          (abh = [] \<longrightarrow>
             blackhole_banlist b =
               take (nat (fst (run_limits nodes)))
                 (sorted_list_of_set (set (fst (run_preserved fs nodes)) \<union>
                                      set (map node_id (known_blackholes nodes)))))) \<and>
         (snd (run_limits nodes)
            < int (length (before_limits (snd (run_preserved fs nodes))
                             (known_wormholes nodes) awh)) \<longrightarrow>
          wormhole_banlist b =
            sorted_set (take (nat (snd (run_limits nodes)))
              (sorted_set (snd (run_preserved fs nodes) @ map node_id (known_wormholes nodes))
               @ awh)) \<and>
          (awh = [] \<longrightarrow>
             wormhole_banlist b =
               take (nat (snd (run_limits nodes)))
                 (sorted_list_of_set (set (snd (run_preserved fs nodes)) \<union>
                                      set (map node_id (known_wormholes nodes))))))"
proof -
  have one: "sorted_set (apply_limit (before_limits p k a) N) =
               sorted_set (take (nat N) (sorted_set (p @ map node_id k) @ a)) \<and>
             (a = [] \<longrightarrow>
                sorted_set (apply_limit (before_limits p k a) N) =
                  take (nat N) (sorted_list_of_set (set p \<union> set (map node_id k))))"
    if "0 \<le> N" and "N < int (length (before_limits p k a))" for p k a N
  proof -
    have t: "apply_limit (before_limits p k a) N = take (nat N) (before_limits p k a)"
      using that by (rule apply_limit_take)
    have p1: "sorted_set (apply_limit (before_limits p k a) N) =
              sorted_set (take (nat N) (sorted_set (p @ map node_id k) @ a))"
      unfolding t by (simp only: before_limits_def)
    have p2: "sorted_set (apply_limit (before_limits p k a) N) =
              take (nat N) (sorted_list_of_set (set p \<union> set (map node_id k)))" if "a = []"
    proof -
      have "sorted_set (apply_limit (before_limits p k a) N) =
            sorted_set (take (nat N) (sorted_set (p @ map node_id k)))"
        unfolding p1 using that by simp
      also have "\<dots> = take (nat N) (sorted_set (p @ map node_id k))"
        by (rule sorted_set_take)
      also have "\<dots> = take (nat N) (sorted_list_of_set (set p \<union> set (map node_id k)))"
        by (simp add: sorted_set_eq)
      finally show ?thesis .
    qed
    from p1 p2 show ?thesis by blast
  qed
  have b: "b = \<lparr>blackhole_banlist =
            sorted_set (apply_limit (before_limits (fst (run_preserved fs nodes))
              (known_blackholes nodes) abh) (fst (run_limits nodes))),
          wormhole_banlist =
            sorted_set (apply_limit (before_limits (snd (run_preserved fs nodes))
              (known_wormholes nodes) awh) (snd (run_limits nodes))),
          main_banlist =
            sorted_set
              (sorted_set (apply_limit (before_limits (fst (run_preserved fs nodes))
                 (known_blackholes nodes) abh) (fst (run_limits nodes)))
               @ sorted_set (apply_limit (before_limits (snd (run_preserved fs nodes))
                 (known_wormholes nodes) awh) (snd (run_limits nodes))))\<rparr>"
    using assms(1) assemble_banlists_eq [OF assms(2), of fs] by simp
  have bh: "blackhole_banlist b =
            sorted_set (apply_limit (before_limits (fst (run_preserved fs nodes))
              (known_blackholes nodes) abh) (fst (run_limits nodes)))"
    by (subst b) simp
  have wh: "wormhole_banlist b =
            sorted_set (apply_limit (before_limits (snd (run_preserved fs nodes))
              (known_wormholes nodes) awh) (snd (run_limits nodes)))"
    by (subst b) simp
  from run_limits_nonneg [of nodes] have n1: "0 \<le> fst (run_limits nodes)"
    and n2: "0 \<le> snd (run_limits nodes)" by simp_all
  show ?thesis
    unfolding bh wh using one [OF n1] one [OF n2] by blast
qed

text \<open>
  Witness for C4: \<open>table18\<close>, where the list before the limits has three entries and
  the limit is 2.
\<close>

theorem truncation_keeps_prefix_witness:
  "assemble_banlists no_files table18 =
     Inr \<lparr>blackhole_banlist = [0, 17], wormhole_banlist = [], main_banlist = [0, 17]\<rparr> \<and>
   additional_detections table18 = Inr ([0, 1], []) \<and>
   fst (run_limits table18)
     < int (length (before_limits (fst (run_preserved no_files table18))
                      (known_blackholes table18) [0, 1])) \<and>
   [0, 17] =
     sorted_set (take (nat (fst (run_limits table18)))
       (sorted_set (fst (run_preserved no_files table18) @ map node_id (known_blackholes table18))
        @ [0, 1]))"
proof -
  have h1: "assemble_banlists no_files table18 =
     Inr \<lparr>blackhole_banlist = [0, 17], wormhole_banlist = [], main_banlist = [0, 17]\<rparr>"
    by code_simp
  have h2: "additional_detections table18 = Inr ([0, 1], [])" by code_simp
  have h3: "fst (run_limits table18)
     < int (length (before_limits (fst (run_preserved no_files table18))
                      (known_blackholes table18) [0, 1]))"
    by code_simp
  from truncation_keeps_prefix [OF h1 h2] h3
  have "[0, 17] =
     sorted_set (take (nat (fst (run_limits table18)))
       (sorted_set (fst (run_preserved no_files table18) @ map node_id (known_blackholes table18))
        @ [0, 1]))"
    by simp
  with h1 h2 h3 show ?thesis by blast
qed

subsection \<open>C5: the combined banlist\<close>

text \<open>
  Claim C5: whenever the run reaches the writer, on the normal path and on the rollback
  path, the combined banlist is \<open>sorted(set(blackhole + wormhole))\<close> of the final
  category banlists: it is ascending, has no duplicates, and holds exactly the
  identifiers of the two lists.
\<close>

theorem combined_is_sorted_union:
  assumes "final_banlists fs nodes = Inr r"
  shows "main_banlist r = sorted_set (blackhole_banlist r @ wormhole_banlist r) \<and>
         sorted (main_banlist r) \<and> distinct (main_banlist r) \<and>
         set (main_banlist r) = set (blackhole_banlist r) \<union> set (wormhole_banlist r)"
proof -
  have ne: "nodes \<noteq> []" using assms final_banlists_empty [of fs] by auto
  obtain b where b: "assemble_banlists fs nodes = Inr b"
    using assemble_banlists_ok by blast
  have m: "main_banlist r = sorted_set (blackhole_banlist r @ wormhole_banlist r)"
  proof (cases "ban_ratio_too_high (main_banlist b) nodes")
    case True
    then have "r = rollback_banlists fs nodes"
      using assms final_banlists_cases [OF ne b] by simp
    then show ?thesis by (simp only: rollback_main)
  next
    case False
    then have "r = b" using assms final_banlists_cases [OF ne b] by simp
    then show ?thesis using assemble_main_banlist [OF b] by simp
  qed
  show ?thesis
    unfolding m by (simp add: sorted_sorted_set distinct_sorted_set set_sorted_set)
qed

text \<open>
  Witness for C5: the mixed run on \<open>table12\<close>.
\<close>

theorem combined_is_sorted_union_witness:
  "final_banlists prior_blackhole_files table12 =
     Inr \<lparr>blackhole_banlist = [0, 1], wormhole_banlist = [7], main_banlist = [0, 1, 7]\<rparr> \<and>
   [0, 1, 7] = sorted_set ([0, 1] @ [7])"
proof -
  have h: "final_banlists prior_blackhole_files table12 =
     Inr \<lparr>blackhole_banlist = [0, 1], wormhole_banlist = [7], main_banlist = [0, 1, 7]\<rparr>"
    by code_simp
  from combined_is_sorted_union [OF h] h show ?thesis by simp
qed

subsection \<open>C6: the limit calculator\<close>

text \<open>
  Claim C6: for every table size, known counts and attack type,
  \<open>calculate_dynamic_limits\<close> returns the limits of section 4.3 of the specification
  (\<open>spec_limits\<close>), whose base cap is \<open>max(6, floor(0.25 * total_nodes))\<close>.
\<close>

theorem limit_calculator_matches_spec:
  "calculate_dynamic_limits nodes kb kw attack_type =
   spec_limits (length nodes) (length kb) (length kw) attack_type"
  unfolding calculate_dynamic_limits_def spec_limits_def Let_def int_of_float_quarter
  by (rule refl)

subsection \<open>C7: the detectors outside their scenario\<close>

text \<open>
  Claim C7: for every table, median and candidate list, and every attack type among
  baseline, blackhole, wormhole and mixed, the blackhole detector returns the empty list
  unless the attack type is blackhole, and the wormhole detector returns the empty list
  unless the attack type is wormhole.
\<close>

theorem detectors_gated:
  assumes "attack_type \<in> {''baseline'', ''blackhole'', ''wormhole'', ''mixed''}"
  shows "(attack_type \<noteq> ''blackhole'' \<longrightarrow>
            detect_blackholes nodes median_rx available_nodes attack_type = []) \<and>
         (attack_type \<noteq> ''wormhole'' \<longrightarrow>
            detect_wormholes nodes median_rx available_nodes attack_type = [])"
  by (simp add: detect_blackholes_def detect_wormholes_def)

text \<open>
  Witness for C7: in a mixed run neither detector flags a node that the blackhole
  detector flags in a blackhole run (\<open>detect_blackholes_fires\<close>).
\<close>

theorem detectors_gated_witness:
  "''mixed'' \<in> {''baseline'', ''blackhole'', ''wormhole'', ''mixed''} \<and>
   detect_blackholes [traffic 0 10 120 0 ''NORMAL''] 20 [0] ''mixed'' = [] \<and>
   detect_wormholes [traffic 0 10 120 0 ''NORMAL''] 20 [0] ''mixed'' = []"
  using detectors_gated [of "''mixed''" "[traffic 0 10 120 0 ''NORMAL'']" 20 "[0]"] by simp

subsection \<open>C8: the format of the category files\<close>

text \<open>
  Claim C8 says that every category file written is strictly ascending without
  duplicates, also after a rollback. The normal path sorts and deduplicates the category
  lists (lines 246 and 247), and the rollback does so for the combined list (line 262),
  but it assigns the category lists as the known identifiers followed by the preserved
  ones (lines 266 and 267) without sorting or removing duplicates. A mixed run on three
  nodes, after a blackhole run that banned node 1, rolls back and writes node 1 twice to
  the blackhole file.
\<close>

theorem rollback_writes_duplicates:
  "main \<lparr>blackhole_file = Some [''1\<newline>''], wormhole_file = None,
         banlist_file = Some [''1\<newline>'']\<rparr>
     (Some [idle 1 ''BLACKHOLE'', idle 2 ''WORMHOLE'', idle 3 ''NORMAL'']) =
   Inr (\<lparr>blackhole_file = Some [''1\<newline>'', ''1\<newline>''],
         wormhole_file = Some [''2\<newline>''],
         banlist_file = Some [''1\<newline>'', ''2\<newline>'']\<rparr>, True)"
  by code_simp

text \<open>
  The same path writes a file that is not ascending when the table lists node 5 before
  node 3.
\<close>

lemma rollback_writes_unsorted:
  "main no_files (Some [idle 5 ''BLACKHOLE'', idle 3 ''BLACKHOLE'']) =
   Inr (\<lparr>blackhole_file = Some [''5\<newline>'', ''3\<newline>''], wormhole_file = None,
         banlist_file = Some [''3\<newline>'', ''5\<newline>'']\<rparr>, True)"
  by code_simp

subsection \<open>C9: writing and preserving a category list\<close>

text \<open>
  Claim C9: when a run writes a category file (the attack type is the category's, or the
  category list is not empty), the file holds the lines of the final category list, and a
  later invocation whose attack type is not that category preserves from this file the
  same set of identifiers.
\<close>

theorem banlist_round_trip:
  assumes "final_banlists fs nodes = Inr b" and "main fs (Some nodes) = Inr (fs', ok)"
  shows "(get_attack_type_from_stats nodes = ''blackhole'' \<or> blackhole_banlist b \<noteq> [] \<longrightarrow>
          later \<noteq> ''blackhole'' \<longrightarrow>
            blackhole_file fs' = Some (banlist_lines (blackhole_banlist b)) \<and>
            set (fst (preserve_existing_banlists fs' later)) = set (blackhole_banlist b)) \<and>
         (get_attack_type_from_stats nodes = ''wormhole'' \<or> wormhole_banlist b \<noteq> [] \<longrightarrow>
          later \<noteq> ''wormhole'' \<longrightarrow>
            wormhole_file fs' = Some (banlist_lines (wormhole_banlist b)) \<and>
            set (snd (preserve_existing_banlists fs' later)) = set (wormhole_banlist b))"
proof -
  have fs': "fs' = write_banlists (get_attack_type_from_stats nodes) b fs"
    using assms by (simp add: main_def)
  have w1: "blackhole_file fs' = Some (banlist_lines (blackhole_banlist b))"
    if "get_attack_type_from_stats nodes = ''blackhole'' \<or> blackhole_banlist b \<noteq> []"
    using that by (auto simp: fs' write_banlists_def Let_def)
  have w2: "wormhole_file fs' = Some (banlist_lines (wormhole_banlist b))"
    if "get_attack_type_from_stats nodes = ''wormhole'' \<or> wormhole_banlist b \<noteq> []"
    using that by (auto simp: fs' write_banlists_def Let_def)
  show ?thesis
    using w1 w2 preserve_after_write [of "get_attack_type_from_stats nodes" b later fs]
    unfolding fs' by simp
qed

text \<open>
  Witness for C9: a blackhole run on two nodes writes the blackhole file, and a later
  wormhole run preserves the same identifiers.
\<close>

theorem banlist_round_trip_witness:
  "final_banlists no_files [idle 5 ''BLACKHOLE'', idle 3 ''BLACKHOLE''] =
     Inr \<lparr>blackhole_banlist = [5, 3], wormhole_banlist = [], main_banlist = [3, 5]\<rparr> \<and>
   main no_files (Some [idle 5 ''BLACKHOLE'', idle 3 ''BLACKHOLE'']) =
     Inr (\<lparr>blackhole_file = Some [''5\<newline>'', ''3\<newline>''], wormhole_file = None,
           banlist_file = Some [''3\<newline>'', ''5\<newline>'']\<rparr>, True) \<and>
   get_attack_type_from_stats [idle 5 ''BLACKHOLE'', idle 3 ''BLACKHOLE''] = ''blackhole'' \<and>
   ''wormhole'' \<noteq> ''blackhole'' \<and>
   set (fst (preserve_existing_banlists
               \<lparr>blackhole_file = Some [''5\<newline>'', ''3\<newline>''], wormhole_file = None,
                banlist_file = Some [''3\<newline>'', ''5\<newline>'']\<rparr> ''wormhole'')) = set [5, 3]"
proof -
  have h1: "final_banlists no_files [idle 5 ''BLACKHOLE'', idle 3 ''BLACKHOLE''] =
     Inr \<lparr>blackhole_banlist = [5, 3], wormhole_banlist = [], main_banlist = [3, 5]\<rparr>"
    by code_simp
  have h2: "main no_files (Some [idle 5 ''BLACKHOLE'', idle 3 ''BLACKHOLE'']) =
     Inr (\<lparr>blackhole_file = Some [''5\<newline>'', ''3\<newline>''], wormhole_file = None,
           banlist_file = Some [''3\<newline>'', ''5\<newline>'']\<rparr>, True)"
    by code_simp
  have h3: "get_attack_type_from_stats [idle 5 ''BLACKHOLE'', idle 3 ''BLACKHOLE''] = ''blackhole''"
    by code_simp
  have h4: "''wormhole'' \<noteq> ''blackhole''" by simp
  have bl: "banlist_lines [5, 3] = [''5\<newline>'', ''3\<newline>'']" by code_simp
  from banlist_round_trip [OF h1 h2, of "''wormhole''"] h3 h4 bl
  have "set (fst (preserve_existing_banlists
               \<lparr>blackhole_file = Some [''5\<newline>'', ''3\<newline>''], wormhole_file = None,
                banlist_file = Some [''3\<newline>'', ''5\<newline>'']\<rparr> ''wormhole'')) = set [5, 3]"
    by simp
  with h1 h2 h3 h4 show ?thesis by blast
qed

subsection \<open>C10: the empty node table\<close>

text \<open>
  Claim C10: on a table without rows the division of the safety check raises
  ZeroDivisionError, which leaves \<open>main\<close> before any file is written; on every
  non-empty table the run reaches the writer and returns \<open>True\<close>.
\<close>

theorem empty_table_division_by_zero:
  "main fs (Some []) = Inl ZeroDivisionError \<and>
   (nodes \<noteq> [] \<longrightarrow>
      (\<exists>b. final_banlists fs nodes = Inr b \<and>
           main fs (Some nodes) =
             Inr (write_banlists (get_attack_type_from_stats nodes) b fs, True)))"
proof -
  have a: "main fs (Some []) = Inl ZeroDivisionError"
    by (simp add: main_def final_banlists_empty)
  have b: "\<exists>b. final_banlists fs nodes = Inr b \<and>
           main fs (Some nodes) =
             Inr (write_banlists (get_attack_type_from_stats nodes) b fs, True)"
    if ne: "nodes \<noteq> []"
  proof -
    obtain b where b: "assemble_banlists fs nodes = Inr b"
      using assemble_banlists_ok by blast
    show ?thesis using final_banlists_cases [OF ne b] by (simp add: main_def)
  qed
  from a b show ?thesis by blast
qed

text \<open>
  Witness for C10: a table of one normal node.
\<close>

theorem empty_table_division_by_zero_witness:
  "main no_files (Some []) = Inl ZeroDivisionError \<and>
   [idle 0 ''NORMAL''] \<noteq> [] \<and>
   (\<exists>b. final_banlists no_files [idle 0 ''NORMAL''] = Inr b \<and>
        main no_files (Some [idle 0 ''NORMAL'']) =
          Inr (write_banlists (get_attack_type_from_stats [idle 0 ''NORMAL'']) b no_files, True))"
  using empty_table_division_by_zero [of no_files "[idle 0 ''NORMAL'']"] by simp

end
